theory Spec2Isabelle
  imports Main
begin

section \<open>Python values used by \<open>course.py\<close>\<close>

text \<open>
  Strings are sequences of code points below 256 (one \<open>char\<close> each). Exceptions are
  values: every \<open>raise\<close> of the source is an \<open>Inl\<close> of the model. The classes
  \<open>KeyboardInterrupt\<close> and \<open>SystemExit\<close> do not derive from \<open>Exception\<close>, so a
  handler \<open>except Exception\<close> lets them pass.
\<close>

datatype exn =
    NoCoursePresentException
  | NoSuchLessonException
  | EOFError
  | TypeError
  | AttributeError
  | ValueError
  | IndexError
  | OSError
  | OtherException string
  | KeyboardInterrupt
  | SystemExit

fun is_Exception :: "exn \<Rightarrow> bool" where
  "is_Exception KeyboardInterrupt = False"
| "is_Exception SystemExit = False"
| "is_Exception _ = True"

subsection \<open>\<open>str.strip\<close>, \<open>int\<close> and \<open>str\<close>\<close>

definition is_space :: "char \<Rightarrow> bool" where
  \<comment> \<open>the white space of Python below code point 256\<close>
  "is_space c = ((of_char c :: nat) \<in> {9, 10, 11, 12, 13, 28, 29, 30, 31, 32, 133, 160})"

definition strip :: "string \<Rightarrow> string" where
  "strip s = rev (dropWhile is_space (rev (dropWhile is_space s)))"

definition is_digit :: "char \<Rightarrow> bool" where
  "is_digit c = (48 \<le> (of_char c :: nat) \<and> (of_char c :: nat) \<le> 57)"

definition digit_val :: "char \<Rightarrow> nat" where
  "digit_val c = of_char c - 48"

text \<open>
  The digits of an integer literal after its first digit: further digits, each optionally
  preceded by one underscore.
\<close>

fun parse_body :: "nat \<Rightarrow> string \<Rightarrow> nat option" where
  "parse_body acc [] = Some acc"
| "parse_body acc [c] = (if is_digit c then Some (10 * acc + digit_val c) else None)"
| "parse_body acc (c # d # ds) =
     (if is_digit c then parse_body (10 * acc + digit_val c) (d # ds)
      else if c = CHR ''_'' \<and> is_digit d then parse_body (10 * acc + digit_val d) ds
      else None)"

definition parse_unsigned :: "string \<Rightarrow> nat option" where
  "parse_unsigned s =
     (case s of
        [] \<Rightarrow> None
      | c # cs \<Rightarrow> if is_digit c then parse_body (digit_val c) cs else None)"

text \<open>
  \<open>int\<close> skips less white space around the literal than \<open>str.strip\<close> removes: the code
  points 28 to 31 are stripped by \<open>strip\<close> and refused by \<open>int\<close>.
\<close>

definition is_int_space :: "char \<Rightarrow> bool" where
  "is_int_space c = ((of_char c :: nat) \<in> {9, 10, 11, 12, 13, 32, 133, 160})"

definition int_strip :: "string \<Rightarrow> string" where
  "int_strip s = rev (dropWhile is_int_space (rev (dropWhile is_int_space s)))"

definition py_int :: "string \<Rightarrow> int option" where
  \<comment> \<open>\<open>int(s)\<close> in base 10 on unbounded integers, without the limit some versions put
     on the number of digits; \<open>None\<close> is the \<open>ValueError\<close>\<close>
  "py_int s =
     (case int_strip s of
        [] \<Rightarrow> None
      | c # cs \<Rightarrow>
          if c = CHR ''-'' then map_option (\<lambda>n. - int n) (parse_unsigned cs)
          else if c = CHR ''+'' then map_option int (parse_unsigned cs)
          else map_option int (parse_unsigned (c # cs)))"

definition digit_char :: "nat \<Rightarrow> char" where
  "digit_char n = char_of (48 + n)"

fun digits_of :: "nat \<Rightarrow> string" where
  "digits_of n =
     (if n < 10 then [digit_char n] else digits_of (n div 10) @ [digit_char (n mod 10)])"

declare digits_of.simps [simp del]

definition py_str :: "int \<Rightarrow> string" where
  \<comment> \<open>\<open>str(i)\<close> of an integer\<close>
  "py_str i = (if i < 0 then CHR ''-'' # digits_of (nat (- i)) else digits_of (nat i))"

subsection \<open>Lists\<close>

definition py_getitem :: "'a list \<Rightarrow> int \<Rightarrow> exn + 'a" where
  \<comment> \<open>\<open>xs[i]\<close>; an index in \<open>[-len(xs), -1]\<close> is read from the end of the list\<close>
  "py_getitem xs i =
     (if 0 \<le> i \<and> i < int (length xs) then Inr (xs ! nat i)
      else if - int (length xs) \<le> i \<and> i < 0 then Inr (xs ! nat (int (length xs) + i))
      else Inl IndexError)"

fun py_index :: "'a list \<Rightarrow> 'a \<Rightarrow> nat option" where
  \<comment> \<open>\<open>xs.index(x)\<close>: the first position of \<open>x\<close>; \<open>None\<close> is the \<open>ValueError\<close>\<close>
  "py_index [] x = None"
| "py_index (y # ys) x = (if y = x then Some 0 else map_option Suc (py_index ys x))"

section \<open>Resolving the identifier (\<open>Course.execute_lesson\<close>, first half)\<close>

text \<open>
  The first half of \<open>execute_lesson\<close> turns the identifier into a lesson name: when
  \<open>int(identifier)\<close> succeeds the name is \<open>lessonnames[identifier - 1]\<close>, with
  \<open>IndexError\<close> turned into \<open>NoSuchLessonException\<close>; otherwise it is
  \<open>lessonnames[lessonnames.index(identifier)]\<close>, with \<open>ValueError\<close> turned into
  \<open>NoSuchLessonException\<close>.
\<close>

definition resolve :: "string list \<Rightarrow> string \<Rightarrow> exn + string" where
  "resolve names identifier =
     (case py_int identifier of
        Some n \<Rightarrow>
          (case py_getitem names (n - 1) of
             Inl e \<Rightarrow> if e = IndexError then Inl NoSuchLessonException else Inl e
           | Inr lessonname \<Rightarrow> Inr lessonname)
      | None \<Rightarrow>
          (case py_index names identifier of
             None \<Rightarrow> Inl NoSuchLessonException
           | Some k \<Rightarrow> py_getitem names (int k)))"

section \<open>Loading a course (\<open>Course.load_yaml\<close>, \<open>Course.__init__\<close>)\<close>

text \<open>
  The values \<open>yaml.safe_load\<close> builds, without floats, dates and byte strings. A mapping
  is the list of its items in order, with strings for keys, as \<open>k.lower()\<close> requires.
\<close>

datatype yval =
    YNone
  | YBool bool
  | YInt int
  | YStr string
  | YList "yval list"
  | YDict "(string \<times> yval) list"

type_synonym ymapping = "(string \<times> yval) list"

text \<open>An object is its \<open>__dict__\<close>: the attributes by name.\<close>

type_synonym obj = "string \<rightharpoonup> yval"

definition lower_char :: "char \<Rightarrow> char" where
  \<comment> \<open>\<open>A\<close> to \<open>Z\<close>, and the capital letters of Latin-1 (192 to 222 without 215)\<close>
  "lower_char c =
     (let n = (of_char c :: nat)
      in if (65 \<le> n \<and> n \<le> 90) \<or> (192 \<le> n \<and> n \<le> 222 \<and> n \<noteq> 215)
         then char_of (n + 32) else c)"

definition py_lower :: "string \<Rightarrow> string" where
  "py_lower s = map lower_char s"

fun split_on :: "char \<Rightarrow> string \<Rightarrow> string list" where
  \<comment> \<open>\<open>s.split(sep)\<close> for a separator of one character; the result is never empty, so
     the last case of the second equation is not reached\<close>
  "split_on sep [] = [[]]"
| "split_on sep (c # cs) =
     (if c = sep then [] # split_on sep cs
      else (case split_on sep cs of
              x # xs \<Rightarrow> (c # x) # xs
            | [] \<Rightarrow> [[c]]))"

definition document_of :: "ymapping \<Rightarrow> obj" where
  \<comment> \<open>\<open>dict((k.lower(), v) for k, v in items)\<close>: a later item replaces an earlier one\<close>
  "document_of items = foldl (\<lambda>m (k, v). m(py_lower k \<mapsto> v)) Map.empty items"

definition Course_init :: "yval \<Rightarrow> yval \<Rightarrow> yval \<Rightarrow> yval \<Rightarrow> yval \<Rightarrow> obj \<Rightarrow> exn + obj" where
  \<comment> \<open>the body of \<open>__init__\<close>; a value without \<open>split\<close> raises \<open>AttributeError\<close>\<close>
  "Course_init course lessons author version coursedir kwargs =
     (case lessons of
        YStr s \<Rightarrow>
          Inr ([''course'' \<mapsto> course,
                ''lessonnames'' \<mapsto> YList (map YStr (split_on CHR '';'' s)),
                ''author'' \<mapsto> author,
                ''description'' \<mapsto> YStr [],
                ''version'' \<mapsto> version,
                ''coursedir'' \<mapsto> coursedir] ++ kwargs)
      | _ \<Rightarrow> Inl AttributeError)"

definition new_Course :: "yval \<Rightarrow> obj \<Rightarrow> exn + obj" where
  \<comment> \<open>the call \<open>cls(coursedir = coursedir, **document)\<close>: a keyword given twice and a
     missing argument raise \<open>TypeError\<close>; what is left over goes to \<open>kwargs\<close>\<close>
  "new_Course coursedir document =
     (if document ''coursedir'' = None \<and> document ''self'' = None then
        (case document ''course'' of
           None \<Rightarrow> Inl TypeError
         | Some course \<Rightarrow>
        (case document ''lessons'' of
           None \<Rightarrow> Inl TypeError
         | Some lessons \<Rightarrow>
        (case document ''author'' of
           None \<Rightarrow> Inl TypeError
         | Some author \<Rightarrow>
        (case document ''version'' of
           None \<Rightarrow> Inl TypeError
         | Some version \<Rightarrow>
             Course_init course lessons author version coursedir
               (document |` (- {''course'', ''lessons'', ''author'', ''version''}))))))
      else Inl TypeError)"

definition load_yaml :: "exn + ymapping list \<Rightarrow> yval \<Rightarrow> exn + obj" where
  \<comment> \<open>\<open>parsed\<close> is the outcome of \<open>yaml.safe_load(file)\<close>\<close>
  "load_yaml parsed coursedir =
     (case parsed of
        Inl e \<Rightarrow> Inl e
      | Inr y \<Rightarrow>
          if length y < 1 then Inl NoCoursePresentException
          else new_Course coursedir (document_of (y ! 0)))"

definition attr_of :: "exn + obj \<Rightarrow> string \<Rightarrow> exn + yval" where
  \<comment> \<open>reading an attribute of the object an expression yields\<close>
  "attr_of r name =
     (case r of
        Inl e \<Rightarrow> Inl e
      | Inr self \<Rightarrow> (case self name of None \<Rightarrow> Inl AttributeError | Some v \<Rightarrow> Inr v))"

fun py_len :: "yval \<Rightarrow> exn + nat" where
  "py_len (YStr s) = Inr (length s)"
| "py_len (YList xs) = Inr (length xs)"
| "py_len (YDict kvs) = Inr (length kvs)"
| "py_len _ = Inl TypeError"

section \<open>Running a lesson (\<open>Course.execute_lesson\<close>, second half) and the menu loop\<close>

text \<open>
  The course as \<open>execute_lesson\<close> reads it, the state it works on (the directories
  \<open>mkdtemp\<close> made that still exist, the lines of standard input not yet read, the lines
  printed by \<open>course.py\<close>) and the collaborators, whose behaviour is a parameter: each
  either returns or raises. \<open>Lesson_load\<close> is \<open>open\<close> followed by
  \<open>Lesson.load_yaml\<close>; \<open>Lesson_execute\<close> also tells how many lines of input the
  lesson read; \<open>rmtree\<close> tells whether the removal of a directory works.
\<close>

record Course =
  lessonnames :: "string list"
  packaged :: bool
  coursedir :: string
  pkgname :: string

record state =
  dirs :: "string set"
  stdin :: "string list"
  out :: "string list"

record 'l external =
  mkdtemp :: "string set \<Rightarrow> exn + string"
  extractall :: "string \<Rightarrow> string \<Rightarrow> exn option"
  slugify :: "string \<Rightarrow> exn + string"
  Lesson_load :: "string \<Rightarrow> exn + 'l"
  Lesson_execute :: "'l \<Rightarrow> string list \<Rightarrow> exn option \<times> nat"
  rmtree :: "string \<Rightarrow> bool"

definition path_join :: "string \<Rightarrow> string \<Rightarrow> string" where
  \<comment> \<open>\<open>os.path.join\<close> of two components (POSIX)\<close>
  "path_join a b =
     (if b \<noteq> [] \<and> hd b = CHR ''/'' then b
      else if a = [] \<or> last a = CHR ''/'' then a @ b
      else a @ ''/'' @ b)"

definition lessonpath :: "string \<Rightarrow> string \<Rightarrow> string" where
  "lessonpath curcoursedir slug = path_join (path_join curcoursedir ''lessons'') (slug @ ''.yaml'')"

definition py_rmtree :: "'l external \<Rightarrow> string \<Rightarrow> state \<Rightarrow> state" where
  \<comment> \<open>\<open>shutil.rmtree(tempdir, ignore_errors = True)\<close>: it never raises\<close>
  "py_rmtree E tempdir s = (if rmtree E tempdir then s\<lparr>dirs := dirs s - {tempdir}\<rparr> else s)"

definition lesson_body :: "'l external \<Rightarrow> string \<Rightarrow> string \<Rightarrow> state \<Rightarrow> exn option \<times> state" where
  \<comment> \<open>the \<open>try\<close> block\<close>
  "lesson_body E curcoursedir lessonname s =
     (case slugify E lessonname of
        Inl e \<Rightarrow> (Some e, s)
      | Inr slug \<Rightarrow>
          (case Lesson_load E (lessonpath curcoursedir slug) of
             Inl e \<Rightarrow> (Some e, s)
           | Inr lesson \<Rightarrow>
               (case Lesson_execute E lesson (stdin s) of
                  (Some e, k) \<Rightarrow> (Some e, s\<lparr>stdin := drop k (stdin s)\<rparr>)
                | (None, k) \<Rightarrow>
                    (None, s\<lparr>stdin := drop k (stdin s),
                              out := out s @ [[], ''Lesson '' @ lessonname @ '' complete!'']\<rparr>))))"

definition execute_lesson ::
  "'l external \<Rightarrow> Course \<Rightarrow> string \<Rightarrow> state \<Rightarrow> exn option \<times> state" where
  \<comment> \<open>the first component is the exception that leaves the method, if any\<close>
  "execute_lesson E self identifier s =
     (case resolve (lessonnames self) identifier of
        Inl e \<Rightarrow> (Some e, s)
      | Inr lessonname \<Rightarrow>
          if packaged self then
            (case mkdtemp E (dirs s) of
               Inl e \<Rightarrow> (Some e, s)
             | Inr tempdir \<Rightarrow>
                 (case extractall E (coursedir self) tempdir of
                    Some e \<Rightarrow> (Some e, s\<lparr>dirs := insert tempdir (dirs s)\<rparr>)
                  | None \<Rightarrow>
                      (case lesson_body E (path_join tempdir (pkgname self)) lessonname
                              (s\<lparr>dirs := insert tempdir (dirs s)\<rparr>) of
                         (Some e, s') \<Rightarrow>
                           if is_Exception e then (Some e, py_rmtree E tempdir s')
                           else (Some e, s')
                       | (None, s') \<Rightarrow> (None, s'))))
          else lesson_body E (coursedir self) lessonname s)"

definition menu :: "Course \<Rightarrow> string list" where
  \<comment> \<open>the lines \<open>menu\<close> prints\<close>
  "menu self = map (\<lambda>(index, lesson). py_str (int index + 1) @ '': '' @ lesson)
                 (enumerate 0 (lessonnames self))"

text \<open>A lesson attempt only consumes input.\<close>

lemma lesson_body_stdin:
  "lesson_body E d l s = (r, s') \<Longrightarrow> length (stdin s') \<le> length (stdin s)"
  by (auto simp: lesson_body_def split: sum.splits option.splits prod.splits)

lemma py_rmtree_stdin: "stdin (py_rmtree E t s) = stdin s"
  by (simp add: py_rmtree_def)

lemma execute_lesson_stdin:
  "execute_lesson E self i s = (r, s') \<Longrightarrow> length (stdin s') \<le> length (stdin s)"
  unfolding execute_lesson_def
  by (auto simp: py_rmtree_stdin split: sum.splits option.splits prod.splits if_splits
      dest: lesson_body_stdin)

text \<open>
  The loop of \<open>execute\<close>. Standard input is the list of the lines still to come, and
  \<open>input\<close> raises \<open>EOFError\<close> when it is empty. Every round reads a line, so the
  loop ends with the input; \<open>out\<close> holds the lines written with \<open>print\<close>.
\<close>

function execute :: "'l external \<Rightarrow> Course \<Rightarrow> state \<Rightarrow> exn option \<times> state" where
  "execute E self s =
     (case stdin s of
        [] \<Rightarrow> (None, s\<lparr>out := out s @ menu self @ [[], ''Bye!'']\<rparr>)
      | line # rest \<Rightarrow>
          (case execute_lesson E self (strip line)
                  (s\<lparr>stdin := rest, out := out s @ menu self\<rparr>) of
             (None, s') \<Rightarrow> execute E self s'
           | (Some e, s') \<Rightarrow>
               if e = NoSuchLessonException then
                 execute E self (s'\<lparr>out := out s' @ [''No lesson: '' @ strip line]\<rparr>)
               else if e = EOFError then (None, s'\<lparr>out := out s' @ [[], ''Bye!'']\<rparr>)
               else (Some e, s')))"
  by pat_completeness auto
termination
proof (relation "measure (\<lambda>(E, self, s). length (stdin s))", goal_cases)
  case 1
  show ?case by simp
next
  case (2 E self s line rest r s')
  have "length (stdin s') \<le> length rest"
    using execute_lesson_stdin [OF 2(2) [symmetric]] by simp
  with 2(1) show ?case by simp
next
  case (3 E self s line rest r s' e)
  have "length (stdin s') \<le> length rest"
    using execute_lesson_stdin [OF 3(2) [symmetric]] by simp
  with 3(1) show ?case by simp
qed

declare execute.simps [simp del]

section \<open>Example inputs\<close>

text \<open>
  A packaged course with three lessons, collaborators that all succeed (the lesson file of
  \<open>Intro\<close> is the only one that opens), and three course documents.
\<close>

definition demo :: Course where
  "demo = \<lparr>lessonnames = [''Intro'', ''Basics'', ''Advanced''], packaged = True,
            coursedir = ''demo.tar'', pkgname = ''demo''\<rparr>"

definition ext_ok :: "unit external" where
  "ext_ok = \<lparr>mkdtemp = (\<lambda>ds. Inr ''/tmp/tmp0''),
             extractall = (\<lambda>archive path. None),
             slugify = (\<lambda>name. Inr (py_lower name)),
             Lesson_load = (\<lambda>path. if path = ''/tmp/tmp0/demo/lessons/intro.yaml''
                                     then Inr () else Inl OSError),
             Lesson_execute = (\<lambda>lesson inp. (None, 0)),
             rmtree = (\<lambda>path. True)\<rparr>"

definition doc_no_lessons :: ymapping where
  "doc_no_lessons =
     [(''Course'', YStr ''Demo''), (''Author'', YStr ''A''), (''Version'', YStr ''1'')]"

definition doc_demo :: ymapping where
  "doc_demo =
     [(''Course'', YStr ''Demo''), (''Lessons'', YStr ''Intro;Basics''),
      (''Author'', YStr ''A''), (''Version'', YStr ''1'')]"

definition doc_described :: ymapping where
  "doc_described =
     [(''Course'', YStr ''Demo''), (''Lessons'', YStr ''Intro;Basics''),
      (''Author'', YStr ''A''), (''Version'', YStr ''1''),
      (''Description'', YStr ''a demo'')]"

section \<open>Properties of the resolution\<close>

lemma is_digit_digit_char: "k < 10 \<Longrightarrow> is_digit (digit_char k)"
  by (simp add: is_digit_def digit_char_def)

lemma digit_val_digit_char: "k < 10 \<Longrightarrow> digit_val (digit_char k) = k"
  by (simp add: digit_val_def digit_char_def)

lemma digit_not_space: "is_digit c \<Longrightarrow> \<not> is_int_space c"
  by (auto simp: is_digit_def is_int_space_def)

lemma digit_not_sign: "is_digit c \<Longrightarrow> c \<noteq> CHR ''-'' \<and> c \<noteq> CHR ''+''"
  by (auto simp: is_digit_def)

lemma digits_of_all_digits: "\<forall>c \<in> set (digits_of n). is_digit c"
proof (induction n rule: digits_of.induct)
  case (1 n)
  show ?case
  proof (cases "n < 10")
    case True
    then show ?thesis by (simp add: digits_of.simps [of n] is_digit_digit_char)
  next
    case False
    with 1 show ?thesis by (simp add: digits_of.simps [of n] is_digit_digit_char)
  qed
qed

lemma digits_of_nonempty: "digits_of n \<noteq> []"
  by (subst digits_of.simps) simp

lemma parse_body_digits:
  "\<forall>c \<in> set ds. is_digit c \<Longrightarrow>
   parse_body acc ds = Some (foldl (\<lambda>a c. 10 * a + digit_val c) acc ds)"
  by (induction acc ds rule: parse_body.induct) auto

lemma foldl_digits_of: "foldl (\<lambda>a c. 10 * a + digit_val c) 0 (digits_of n) = n"
proof (induction n rule: digits_of.induct)
  case (1 n)
  show ?case
  proof (cases "n < 10")
    case True
    then show ?thesis by (simp add: digits_of.simps [of n] digit_val_digit_char)
  next
    case False
    with 1 show ?thesis by (simp add: digits_of.simps [of n] digit_val_digit_char)
  qed
qed

lemma parse_unsigned_digits_of: "parse_unsigned (digits_of n) = Some n"
proof (cases "digits_of n")
  case Nil
  then show ?thesis by (simp add: digits_of_nonempty)
next
  case (Cons c cs)
  have all: "\<forall>d \<in> set (c # cs). is_digit d"
    using digits_of_all_digits [of n] Cons by simp
  have "foldl (\<lambda>a c. 10 * a + digit_val c) 0 (c # cs) = n"
    using foldl_digits_of [of n] Cons by simp
  then have "foldl (\<lambda>a c. 10 * a + digit_val c) (digit_val c) cs = n" by simp
  moreover have "parse_body (digit_val c) cs
      = Some (foldl (\<lambda>a c. 10 * a + digit_val c) (digit_val c) cs)"
    using all by (intro parse_body_digits) simp
  ultimately show ?thesis using all Cons by (simp add: parse_unsigned_def)
qed

lemma dropWhile_hd: "xs \<noteq> [] \<Longrightarrow> \<not> P (hd xs) \<Longrightarrow> dropWhile P xs = xs"
  by (cases xs) auto

lemma strip_digits: "ds \<noteq> [] \<Longrightarrow> \<forall>c \<in> set ds. is_digit c \<Longrightarrow> int_strip ds = ds"
proof -
  assume ne: "ds \<noteq> []" and all: "\<forall>c \<in> set ds. is_digit c"
  have "\<not> is_int_space (hd ds)" using ne all by (simp add: digit_not_space)
  then have a: "dropWhile is_int_space ds = ds" using ne by (simp add: dropWhile_hd)
  have "hd (rev ds) \<in> set ds" using ne by (simp add: hd_rev)
  then have "\<not> is_int_space (hd (rev ds))" using all by (simp add: digit_not_space)
  then have b: "dropWhile is_int_space (rev ds) = rev ds" using ne by (simp add: dropWhile_hd)
  show ?thesis by (simp add: int_strip_def a b)
qed

lemma py_int_py_str_nonneg: "0 \<le> i \<Longrightarrow> py_int (py_str i) = Some i"
proof -
  assume i: "0 \<le> i"
  obtain c cs where cs: "digits_of (nat i) = c # cs"
    using digits_of_nonempty [of "nat i"] by (cases "digits_of (nat i)") auto
  have all: "\<forall>d \<in> set (digits_of (nat i)). is_digit d" by (rule digits_of_all_digits)
  then have "is_digit c" using cs by simp
  then have c: "c \<noteq> CHR ''-''" "c \<noteq> CHR ''+''" using digit_not_sign by auto
  have "int_strip (digits_of (nat i)) = c # cs"
    using strip_digits [OF digits_of_nonempty all] cs by simp
  moreover have "parse_unsigned (c # cs) = Some (nat i)"
    using parse_unsigned_digits_of [of "nat i"] cs by simp
  ultimately show ?thesis using i c by (simp add: py_int_def py_str_def)
qed

lemma py_index_None: "py_index xs x = None \<longleftrightarrow> x \<notin> set xs"
  by (induction xs) auto

lemma py_index_Some:
  "py_index xs x = Some k \<Longrightarrow> k < length xs \<and> xs ! k = x \<and> (\<forall>j < k. xs ! j \<noteq> x)"
proof (induction xs arbitrary: k)
  case Nil
  then show ?case by simp
next
  case (Cons y ys)
  show ?case
  proof (cases "y = x")
    case True
    with Cons.prems show ?thesis by simp
  next
    case False
    with Cons.prems obtain k' where k': "py_index ys x = Some k'" "k = Suc k'" by auto
    from Cons.IH [OF k'(1)] False k'(2) show ?thesis
      by (auto simp: nth_Cons split: nat.splits)
  qed
qed

lemma resolve_zero_last:
  "names \<noteq> [] \<Longrightarrow> resolve names ''0'' = Inr (last names)"
proof -
  assume ne: "names \<noteq> []"
  have z: "py_int ''0'' = Some 0" by code_simp
  have len: "1 \<le> length names" using ne by (cases names) simp_all
  then have n: "nat (int (length names) + (- 1)) = length names - 1" by simp
  have "py_getitem names (- 1) = Inr (names ! (length names - 1))"
    using len n by (simp add: py_getitem_def)
  then show ?thesis using ne by (simp add: resolve_def z last_conv_nth)
qed

lemma resolve_index_out_of_range:
  "py_int identifier = Some n \<Longrightarrow> n \<le> - int (length names) \<or> int (length names) < n \<Longrightarrow>
   resolve names identifier = Inl NoSuchLessonException"
  by (auto simp add: resolve_def py_getitem_def Let_def)

text \<open>
  C2. The claim: a selector that parses as an integer \<open>n\<close> with \<open>n \<le> 0\<close> or
  \<open>n > len(lessonnames)\<close> fails with \<open>NoSuchLessonException\<close>. The code computes
  \<open>lessonnames[n - 1]\<close>, and Python reads a negative index from the end of the list: on
  the three lessons below the selectors \<open>0\<close> and \<open>-2\<close> parse as \<open>0\<close> and \<open>-2\<close>
  and resolve to the last and to the first lesson instead of failing.
\<close>

theorem resolve_nonpositive_index_resolves:
  "py_int ''0'' = Some 0 \<and>
   resolve [''Intro'', ''Basics'', ''Advanced''] ''0'' = Inr ''Advanced'' \<and>
   py_int ''-2'' = Some (- 2) \<and>
   resolve [''Intro'', ''Basics'', ''Advanced''] ''-2'' = Inr ''Intro''"
  by code_simp

text \<open>
  C3. For every list of lesson names and every integer \<open>i\<close> with
  \<open>1 \<le> i \<le> len(lessonnames)\<close>, the selector \<open>str(i)\<close> resolves to
  \<open>lessonnames[i - 1]\<close>: the index is one-based.
\<close>

theorem resolve_valid_index:
  "1 \<le> i \<Longrightarrow> i \<le> int (length names) \<Longrightarrow>
   resolve names (py_str i) = Inr (names ! nat (i - 1))"
  by (simp add: resolve_def py_int_py_str_nonneg py_getitem_def)

theorem resolve_valid_index_witness:
  "(1::int) \<le> 2 \<and> (2::int) \<le> int (length [''Intro'', ''Basics'', ''Advanced'']) \<and>
   py_str 2 = ''2'' \<and>
   resolve [''Intro'', ''Basics'', ''Advanced''] ''2'' = Inr ''Basics''"
proof -
  have s: "py_str 2 = ''2''" by code_simp
  have "resolve [''Intro'', ''Basics'', ''Advanced''] (py_str 2)
      = Inr ([''Intro'', ''Basics'', ''Advanced''] ! nat (2 - 1))"
    by (rule resolve_valid_index) simp_all
  then show ?thesis using s by simp
qed

text \<open>
  C4. For every selector that does not parse as an integer: when it equals an element of
  the list of lesson names, resolution yields the first such element (the one at the
  least position holding that name); when it equals none, resolution fails with
  \<open>NoSuchLessonException\<close>. A selector such as code point 28 followed by \<open>2\<close> does
  not parse, since \<open>int\<close> does not skip that character, and is looked up by name.
\<close>

theorem resolve_by_name:
  assumes "py_int identifier = None"
  shows "(identifier \<in> set names \<longrightarrow>
            (\<exists>k < length names.
               names ! k = identifier \<and> (\<forall>j < k. names ! j \<noteq> identifier) \<and>
               resolve names identifier = Inr (names ! k))) \<and>
         (identifier \<notin> set names \<longrightarrow>
            resolve names identifier = Inl NoSuchLessonException)"
proof (intro conjI impI)
  assume "identifier \<in> set names"
  then obtain k where k: "py_index names identifier = Some k"
    by (cases "py_index names identifier") (auto simp: py_index_None)
  from py_index_Some [OF k]
  have p: "k < length names" "names ! k = identifier"
    "\<forall>j < k. names ! j \<noteq> identifier" by auto
  have "resolve names identifier = Inr (names ! k)"
    using assms k p(1) by (simp add: resolve_def py_getitem_def)
  with p show "\<exists>k < length names.
      names ! k = identifier \<and> (\<forall>j < k. names ! j \<noteq> identifier) \<and>
      resolve names identifier = Inr (names ! k)" by blast
next
  assume "identifier \<notin> set names"
  then have "py_index names identifier = None" by (simp add: py_index_None)
  then show "resolve names identifier = Inl NoSuchLessonException"
    using assms by (simp add: resolve_def)
qed

theorem resolve_by_name_witness:
  "py_int ''Basics'' = None \<and> py_int ''Nope'' = None \<and> py_int [CHR 0x1C, CHR ''2''] = None \<and>
   ''Basics'' \<in> set [''Intro'', ''Basics'', ''Advanced'', ''Basics''] \<and>
   ''Nope'' \<notin> set [''Intro'', ''Basics'', ''Advanced'', ''Basics''] \<and>
   resolve [''Intro'', ''Basics'', ''Advanced'', ''Basics''] ''Basics'' = Inr ''Basics'' \<and>
   resolve [''Intro'', ''Basics'', ''Advanced'', ''Basics''] ''Nope'' = Inl NoSuchLessonException \<and>
   resolve [''x'', [CHR 0x1C, CHR ''2'']] [CHR 0x1C, CHR ''2''] = Inr [CHR 0x1C, CHR ''2'']"
proof -
  have a: "py_int ''Basics'' = None" by code_simp
  have b: "py_int ''Nope'' = None" by code_simp
  have c: "py_int [CHR 0x1C, CHR ''2''] = None" by code_simp
  show ?thesis
    using a b c
      resolve_by_name [OF a, of "[''Intro'', ''Basics'', ''Advanced'', ''Basics'']"]
      resolve_by_name [OF b, of "[''Intro'', ''Basics'', ''Advanced'', ''Basics'']"]
      resolve_by_name [OF c, of "[''x'', [CHR 0x1C, CHR ''2'']]"]
    by auto
qed

text \<open>
  C5. For every selector that parses as an integer \<open>n\<close>, resolution is a lookup by
  position alone and never compares names: for \<open>1 \<le> n \<le> len\<close> it yields the lesson at
  position \<open>n - 1\<close>, for \<open>-len < n \<le> 0\<close> the lesson at position \<open>len + n - 1\<close> (Python
  reads the negative index from the end), and otherwise it fails with
  \<open>NoSuchLessonException\<close>; the outcome commutes with every renaming \<open>f\<close> of the
  lessons, also when a lesson is named like the selector. So a lesson whose name is a
  numeral is not reached by that name: with the lessons \<open>2\<close> and \<open>x\<close> the selector
  \<open>2\<close> yields \<open>x\<close>, and with the lessons \<open>5\<close> and \<open>x\<close> the selector \<open>5\<close> fails.
\<close>

theorem resolve_integer_is_index:
  assumes "py_int identifier = Some n"
  shows "(1 \<le> n \<and> n \<le> int (length names) \<longrightarrow>
            resolve names identifier = Inr (names ! nat (n - 1))) \<and>
         (- int (length names) < n \<and> n \<le> 0 \<longrightarrow>
            resolve names identifier = Inr (names ! nat (int (length names) + n - 1))) \<and>
         (n \<le> - int (length names) \<or> int (length names) < n \<longrightarrow>
            resolve names identifier = Inl NoSuchLessonException) \<and>
         resolve (map f names) identifier = map_sum id f (resolve names identifier)"
proof (intro conjI impI)
  assume "1 \<le> n \<and> n \<le> int (length names)"
  then show "resolve names identifier = Inr (names ! nat (n - 1))"
    using assms by (simp add: resolve_def py_getitem_def)
next
  assume a: "- int (length names) < n \<and> n \<le> 0"
  then show "resolve names identifier = Inr (names ! nat (int (length names) + n - 1))"
    using assms by (simp add: resolve_def py_getitem_def add_diff_eq)
next
  assume "n \<le> - int (length names) \<or> int (length names) < n"
  then show "resolve names identifier = Inl NoSuchLessonException"
    using assms by (auto simp: resolve_def py_getitem_def)
next
  show "resolve (map f names) identifier = map_sum id f (resolve names identifier)"
    using assms by (auto simp: resolve_def py_getitem_def)
qed

theorem resolve_integer_is_index_witness:
  "py_int ''2'' = Some 2 \<and> py_int ''5'' = Some 5 \<and>
   ''2'' \<in> set [''2'', ''x''] \<and> ''5'' \<in> set [''5'', ''x''] \<and>
   resolve [''2'', ''x''] ''2'' = Inr ''x'' \<and>
   resolve [''5'', ''x''] ''5'' = Inl NoSuchLessonException \<and>
   resolve (map (\<lambda>s. s @ ''!'') [''2'', ''x'']) ''2'' = Inr ''x!''"
proof -
  have a: "py_int ''2'' = Some 2" by code_simp
  have b: "py_int ''5'' = Some 5" by code_simp
  show ?thesis
    using a b resolve_integer_is_index [OF a, of "[''2'', ''x'']" "\<lambda>s. s @ ''!''"]
      resolve_integer_is_index [OF b, of "[''5'', ''x'']" "\<lambda>s. s"]
    by simp
qed

section \<open>Properties of loading\<close>

lemma split_on_nonempty: "split_on sep s \<noteq> []"
  by (induction s) (auto split: list.splits)

lemma foldl_lower_None:
  "foldl (\<lambda>m (k, v). m(py_lower k \<mapsto> v)) m0 items k = None \<longleftrightarrow>
     m0 k = None \<and> k \<notin> py_lower ` fst ` set items"
  by (induction items arbitrary: m0) (auto split: if_splits)

lemma document_of_None: "document_of items k = None \<longleftrightarrow> k \<notin> py_lower ` fst ` set items"
  by (simp add: document_of_def foldl_lower_None)

lemma foldl_lower_notin:
  "k \<notin> py_lower ` fst ` set items \<Longrightarrow>
   foldl (\<lambda>m (k, v). m(py_lower k \<mapsto> v)) m0 items k = m0 k"
  by (induction items arbitrary: m0) (auto split: if_splits)

lemma foldl_lower_Some:
  "distinct (map (py_lower \<circ> fst) items) \<Longrightarrow> (k, v) \<in> set items \<Longrightarrow>
   foldl (\<lambda>m (k, v). m(py_lower k \<mapsto> v)) m0 items (py_lower k) = Some v"
proof (induction items arbitrary: m0)
  case Nil
  then show ?case by simp
next
  case (Cons a items)
  let ?F = "\<lambda>m (k, v). m(py_lower k \<mapsto> v)"
  obtain k' v' where a: "a = (k', v')" by (cases a)
  have step: "foldl ?F m0 (a # items) = foldl ?F (m0(py_lower k' \<mapsto> v')) items"
    by (simp only: a foldl_Cons prod.case)
  have dist: "distinct (map (py_lower \<circ> fst) items)"
    and notin: "py_lower k' \<notin> py_lower ` fst ` set items"
    using Cons.prems(1) a by (auto simp: comp_def)
  show ?case
  proof (cases "(k, v) = (k', v')")
    case True
    have "foldl ?F (m0(py_lower k' \<mapsto> v')) items (py_lower k') = (m0(py_lower k' \<mapsto> v')) (py_lower k')"
      using notin by (rule foldl_lower_notin)
    then have "foldl ?F (m0(py_lower k' \<mapsto> v')) items (py_lower k') = Some v'"
      by (simp only: fun_upd_same)
    then show ?thesis using True by (simp only: step prod.inject)
  next
    case False
    then have "(k, v) \<in> set items" using Cons.prems(2) a by auto
    then have "foldl ?F (m0(py_lower k' \<mapsto> v')) items (py_lower k) = Some v"
      by (rule Cons.IH [OF dist])
    then show ?thesis by (simp only: step)
  qed
qed

lemma document_of_Some:
  "distinct (map (py_lower \<circ> fst) items) \<Longrightarrow> (k, v) \<in> set items \<Longrightarrow>
   document_of items (py_lower k) = Some v"
  by (simp add: document_of_def foldl_lower_Some)

lemma new_Course_missing:
  "k \<in> {''course'', ''lessons'', ''author'', ''version''} \<Longrightarrow> document k = None \<Longrightarrow>
   new_Course cd document = Inl TypeError"
  by (auto simp: new_Course_def split: option.splits)

lemma py_lower_keys:
  "py_lower ''Course'' = ''course''" "py_lower ''Lessons'' = ''lessons''"
  "py_lower ''Author'' = ''author''" "py_lower ''Version'' = ''version''"
  "py_lower ''lessonnames'' = ''lessonnames''"
  by code_simp+

lemma py_lower_description: "py_lower ''Description'' = ''description''"
  by code_simp

text \<open>
  C6. Loading a parsed document that is a list with no element fails with
  \<open>NoCoursePresentException\<close>, so no course is built. With at least one element, the
  outcome is that of the first element alone, whatever follows it, and the course is built
  from that element: when its keys differ after lower-casing, it gives \<open>course\<close>,
  \<open>author\<close>, \<open>version\<close> and a string for \<open>lessons\<close>, and it has no key
  \<open>coursedir\<close> or \<open>self\<close>, the load succeeds, the attributes \<open>course\<close>,
  \<open>author\<close> and \<open>version\<close> are the element's values, \<open>coursedir\<close> is the
  directory given, \<open>lessonnames\<close> is the \<open>lessons\<close> string split on \<open>;\<close> and
  \<open>description\<close> is empty unless the element has a key of that name, and every other
  item of the element is an attribute under its lower-cased key.
\<close>

theorem load_yaml_first_element:
  "load_yaml (Inr []) cd = Inl NoCoursePresentException \<and>
   load_yaml (Inr (d # ds)) cd = load_yaml (Inr [d]) cd \<and>
   (distinct (map (py_lower \<circ> fst) d) \<and>
    (kc, course) \<in> set d \<and> py_lower kc = ''course'' \<and>
    (kl, YStr lessons) \<in> set d \<and> py_lower kl = ''lessons'' \<and>
    (ka, author) \<in> set d \<and> py_lower ka = ''author'' \<and>
    (kv, version) \<in> set d \<and> py_lower kv = ''version'' \<and>
    ''coursedir'' \<notin> py_lower ` fst ` set d \<and> ''self'' \<notin> py_lower ` fst ` set d \<longrightarrow>
    (\<exists>self. load_yaml (Inr (d # ds)) cd = Inr self \<and>
       self ''course'' = Some course \<and>
       self ''author'' = Some author \<and>
       self ''version'' = Some version \<and>
       self ''coursedir'' = Some cd \<and>
       self ''lessons'' = None \<and>
       (''lessonnames'' \<notin> py_lower ` fst ` set d \<longrightarrow>
          self ''lessonnames'' = Some (YList (map YStr (split_on CHR '';'' lessons)))) \<and>
       (''description'' \<notin> py_lower ` fst ` set d \<longrightarrow> self ''description'' = Some (YStr [])) \<and>
       (\<forall>(k, v) \<in> set d. py_lower k \<notin> {''course'', ''lessons'', ''author'', ''version''} \<longrightarrow>
          self (py_lower k) = Some v)))"
proof (intro conjI impI)
  show "load_yaml (Inr []) cd = Inl NoCoursePresentException" by (simp add: load_yaml_def)
next
  show "load_yaml (Inr (d # ds)) cd = load_yaml (Inr [d]) cd" by (simp add: load_yaml_def)
next
  assume h: "distinct (map (py_lower \<circ> fst) d) \<and>
    (kc, course) \<in> set d \<and> py_lower kc = ''course'' \<and>
    (kl, YStr lessons) \<in> set d \<and> py_lower kl = ''lessons'' \<and>
    (ka, author) \<in> set d \<and> py_lower ka = ''author'' \<and>
    (kv, version) \<in> set d \<and> py_lower kv = ''version'' \<and>
    ''coursedir'' \<notin> py_lower ` fst ` set d \<and> ''self'' \<notin> py_lower ` fst ` set d"
  let ?m = "document_of d"
  let ?kw = "?m |` (- {''course'', ''lessons'', ''author'', ''version''})"
  let ?self = "[''course'' \<mapsto> course,
                ''lessonnames'' \<mapsto> YList (map YStr (split_on CHR '';'' lessons)),
                ''author'' \<mapsto> author,
                ''description'' \<mapsto> YStr [],
                ''version'' \<mapsto> version,
                ''coursedir'' \<mapsto> cd] ++ ?kw"
  from h have dist: "distinct (map (py_lower \<circ> fst) d)" by simp
  have c: "?m ''course'' = Some course" using document_of_Some [OF dist, of kc course] h by simp
  have l: "?m ''lessons'' = Some (YStr lessons)"
    using document_of_Some [OF dist, of kl "YStr lessons"] h by simp
  have a: "?m ''author'' = Some author" using document_of_Some [OF dist, of ka author] h by simp
  have v: "?m ''version'' = Some version" using document_of_Some [OF dist, of kv version] h by simp
  have n: "?m ''coursedir'' = None" "?m ''self'' = None" using h by (simp_all add: document_of_None)
  have ld: "load_yaml (Inr (d # ds)) cd = Inr ?self"
    by (simp add: load_yaml_def new_Course_def Course_init_def c l a v n)
  have 1: "?self ''course'' = Some course" "?self ''author'' = Some author"
    "?self ''version'' = Some version" "?self ''lessons'' = None"
    by (simp_all add: map_add_def restrict_map_def)
  have 2: "?self ''coursedir'' = Some cd" using n(1) by (simp add: map_add_def restrict_map_def)
  have 3: "''lessonnames'' \<notin> py_lower ` fst ` set d \<longrightarrow>
          ?self ''lessonnames'' = Some (YList (map YStr (split_on CHR '';'' lessons)))"
  proof
    assume "''lessonnames'' \<notin> py_lower ` fst ` set d"
    then have "?m ''lessonnames'' = None" by (simp add: document_of_None)
    then show "?self ''lessonnames'' = Some (YList (map YStr (split_on CHR '';'' lessons)))"
      by (simp add: map_add_def restrict_map_def)
  qed
  have 4: "''description'' \<notin> py_lower ` fst ` set d \<longrightarrow> ?self ''description'' = Some (YStr [])"
  proof
    assume "''description'' \<notin> py_lower ` fst ` set d"
    then have "?m ''description'' = None" by (simp add: document_of_None)
    then show "?self ''description'' = Some (YStr [])"
      by (simp add: map_add_def restrict_map_def)
  qed
  have 5: "\<forall>(k, v) \<in> set d. py_lower k \<notin> {''course'', ''lessons'', ''author'', ''version''} \<longrightarrow>
          ?self (py_lower k) = Some v"
  proof -
    have "?self (py_lower k) = Some x"
      if kx: "(k, x) \<in> set d"
        and nk: "py_lower k \<notin> {''course'', ''lessons'', ''author'', ''version''}" for k x
    proof -
      have "?m (py_lower k) = Some x" using document_of_Some [OF dist kx] .
      then have "?kw (py_lower k) = Some x" using nk by (simp add: restrict_map_def)
      then show ?thesis by (simp only: map_add_find_right)
    qed
    then show ?thesis by blast
  qed
  show "\<exists>self. load_yaml (Inr (d # ds)) cd = Inr self \<and>
       self ''course'' = Some course \<and>
       self ''author'' = Some author \<and>
       self ''version'' = Some version \<and>
       self ''coursedir'' = Some cd \<and>
       self ''lessons'' = None \<and>
       (''lessonnames'' \<notin> py_lower ` fst ` set d \<longrightarrow>
          self ''lessonnames'' = Some (YList (map YStr (split_on CHR '';'' lessons)))) \<and>
       (''description'' \<notin> py_lower ` fst ` set d \<longrightarrow> self ''description'' = Some (YStr [])) \<and>
       (\<forall>(k, v) \<in> set d. py_lower k \<notin> {''course'', ''lessons'', ''author'', ''version''} \<longrightarrow>
          self (py_lower k) = Some v)"
    by (intro exI [of _ ?self] conjI ld 1 2 3 4 5)
qed

theorem load_yaml_first_element_witness:
  "load_yaml (Inr []) (YStr ''demo'') = Inl NoCoursePresentException \<and>
   (\<exists>self. load_yaml (Inr [doc_described, doc_no_lessons]) (YStr ''demo'') = Inr self \<and>
      self ''course'' = Some (YStr ''Demo'') \<and>
      self ''author'' = Some (YStr ''A'') \<and>
      self ''version'' = Some (YStr ''1'') \<and>
      self ''coursedir'' = Some (YStr ''demo'') \<and>
      self ''lessonnames'' = Some (YList [YStr ''Intro'', YStr ''Basics'']) \<and>
      self ''description'' = Some (YStr ''a demo''))"
proof -
  let ?cd = "YStr ''demo''"
  have keys: "map (py_lower \<circ> fst) doc_described =
      [''course'', ''lessons'', ''author'', ''version'', ''description'']"
    by (simp add: doc_described_def py_lower_keys py_lower_description)
  have h: "distinct (map (py_lower \<circ> fst) doc_described) \<and>
    (''Course'', YStr ''Demo'') \<in> set doc_described \<and> py_lower ''Course'' = ''course'' \<and>
    (''Lessons'', YStr ''Intro;Basics'') \<in> set doc_described \<and> py_lower ''Lessons'' = ''lessons'' \<and>
    (''Author'', YStr ''A'') \<in> set doc_described \<and> py_lower ''Author'' = ''author'' \<and>
    (''Version'', YStr ''1'') \<in> set doc_described \<and> py_lower ''Version'' = ''version'' \<and>
    ''coursedir'' \<notin> py_lower ` fst ` set doc_described \<and>
    ''self'' \<notin> py_lower ` fst ` set doc_described"
    unfolding keys by (simp add: doc_described_def py_lower_keys py_lower_description)
  have n: "''lessonnames'' \<notin> py_lower ` fst ` set doc_described"
    by (simp add: doc_described_def py_lower_keys py_lower_description)
  have m: "(''Description'', YStr ''a demo'') \<in> set doc_described"
    by (simp add: doc_described_def)
  have s: "split_on CHR '';'' ''Intro;Basics'' = [''Intro'', ''Basics'']" by simp
  from load_yaml_first_element [of ?cd doc_described "[doc_no_lessons]"
      "''Course''" "YStr ''Demo''" "''Lessons''" "''Intro;Basics''"
      "''Author''" "YStr ''A''" "''Version''" "YStr ''1''"] h
  obtain self where l: "load_yaml (Inr [doc_described, doc_no_lessons]) ?cd = Inr self"
    and a: "self ''course'' = Some (YStr ''Demo'')" "self ''author'' = Some (YStr ''A'')"
      "self ''version'' = Some (YStr ''1'')" "self ''coursedir'' = Some ?cd"
    and ln: "''lessonnames'' \<notin> py_lower ` fst ` set doc_described \<longrightarrow>
          self ''lessonnames'' = Some (YList (map YStr (split_on CHR '';'' ''Intro;Basics'')))"
    and ex: "\<forall>(k, v) \<in> set doc_described.
          py_lower k \<notin> {''course'', ''lessons'', ''author'', ''version''} \<longrightarrow>
          self (py_lower k) = Some v"
    by blast
  have "self ''lessonnames'' = Some (YList [YStr ''Intro'', YStr ''Basics''])"
    using ln n s by simp
  moreover have "self (py_lower ''Description'') = Some (YStr ''a demo'')"
    using ex m by (auto simp: py_lower_description)
  ultimately show ?thesis
    using l a load_yaml_first_element [of ?cd] by (auto simp: py_lower_description)
qed

text \<open>
  C7, as amended. After every successful load of a document whose first element has no key
  that lower-cases to \<open>lessonnames\<close>, the attribute \<open>lessonnames\<close> is the \<open>lessons\<close>
  string split on \<open>;\<close>, and that list is never empty (for the empty string it is the
  one empty name).
\<close>

theorem load_yaml_lessonnames:
  assumes "load_yaml (Inr y) cd = Inr self"
    and "''lessonnames'' \<notin> py_lower ` fst ` set (y ! 0)"
  shows "(\<exists>s. document_of (y ! 0) ''lessons'' = Some (YStr s) \<and>
              self ''lessonnames'' = Some (YList (map YStr (split_on CHR '';'' s))) \<and>
              0 < length (split_on CHR '';'' s)) \<and>
         split_on CHR '';'' [] = [[]]"
proof -
  let ?d = "document_of (y ! 0)"
  have n: "?d ''lessonnames'' = None" using assms(2) by (simp add: document_of_None)
  from assms(1) have nc: "new_Course cd ?d = Inr self"
    by (simp add: load_yaml_def split: if_splits)
  then obtain course lessons author version where
    l: "?d ''lessons'' = Some lessons" and
    i: "Course_init course lessons author version cd
          (?d |` (- {''course'', ''lessons'', ''author'', ''version''})) = Inr self"
    by (auto simp: new_Course_def split: if_splits option.splits)
  from i obtain s where s: "lessons = YStr s" and
    self: "self = [''course'' \<mapsto> course,
                ''lessonnames'' \<mapsto> YList (map YStr (split_on CHR '';'' s)),
                ''author'' \<mapsto> author,
                ''description'' \<mapsto> YStr [],
                ''version'' \<mapsto> version,
                ''coursedir'' \<mapsto> cd] ++ (?d |` (- {''course'', ''lessons'', ''author'', ''version''}))"
    by (auto simp: Course_init_def split: yval.splits)
  have "self ''lessonnames'' = Some (YList (map YStr (split_on CHR '';'' s)))"
    using n by (simp add: self map_add_def restrict_map_def)
  moreover have "0 < length (split_on CHR '';'' s)" using split_on_nonempty [of "CHR '';''" s] by simp
  ultimately show ?thesis using l s by auto
qed

theorem load_yaml_lessonnames_witness:
  "\<exists>self. load_yaml (Inr [doc_demo]) (YStr ''demo'') = Inr self \<and>
          ''lessonnames'' \<notin> py_lower ` fst ` set ([doc_demo] ! 0) \<and>
          self ''lessonnames'' = Some (YList [YStr ''Intro'', YStr ''Basics''])"
proof -
  have d: "document_of doc_demo ''lessons'' = Some (YStr ''Intro;Basics'')"
    by (simp add: doc_demo_def document_of_def py_lower_keys)
  have k: "''lessonnames'' \<notin> py_lower ` fst ` set ([doc_demo] ! 0)"
    by (simp add: doc_demo_def py_lower_keys)
  obtain self where l: "load_yaml (Inr [doc_demo]) (YStr ''demo'') = Inr self"
    by (simp add: load_yaml_def doc_demo_def document_of_def py_lower_keys new_Course_def
        Course_init_def)
  from load_yaml_lessonnames [OF l k] d
  have "self ''lessonnames'' = Some (YList (map YStr (split_on CHR '';'' ''Intro;Basics'')))"
    by auto
  then have "self ''lessonnames'' = Some (YList [YStr ''Intro'', YStr ''Basics''])" by simp
  with l k show ?thesis by blast
qed

text \<open>
  C7, the claim as stated (the lesson list never has length zero after a successful load)
  fails: \<open>__init__\<close> ends with \<open>self.__dict__.update(kwargs)\<close>, so a document with
  the extra key \<open>lessonnames\<close> replaces the list built from \<open>lessons\<close>. Here the load
  succeeds and the attribute is the empty list.
\<close>

theorem load_yaml_lessonnames_overridden:
  "attr_of (load_yaml (Inr [[(''course'', YStr ''Demo''), (''lessons'', YStr ''Intro;Basics''),
                             (''author'', YStr ''A''), (''version'', YStr ''1''),
                             (''lessonnames'', YList [])]]) (YStr ''demo''))
      ''lessonnames'' = Inr (YList []) \<and>
   py_len (YList []) = Inr 0"
  by code_simp

text \<open>
  C10. For every course document whose first element lacks, after lower-casing its keys,
  one of \<open>course\<close>, \<open>lessons\<close>, \<open>author\<close> and \<open>version\<close>, the load fails with
  \<open>TypeError\<close> (the error of a call with a missing argument), which is not
  \<open>NoCoursePresentException\<close>, and no course is built.
\<close>

theorem load_yaml_missing_field:
  assumes "y \<noteq> []"
    and "k \<in> {''course'', ''lessons'', ''author'', ''version''}"
    and "k \<notin> py_lower ` fst ` set (y ! 0)"
  shows "load_yaml (Inr y) cd = Inl TypeError \<and>
         load_yaml (Inr y) cd \<noteq> Inl NoCoursePresentException \<and>
         (\<nexists>self. load_yaml (Inr y) cd = Inr self)"
proof -
  have "document_of (y ! 0) k = None" using assms(3) by (simp add: document_of_None)
  then have "new_Course cd (document_of (y ! 0)) = Inl TypeError"
    using assms(2) by (rule new_Course_missing [rotated])
  moreover have "\<not> length y < 1" using assms(1) by (cases y) simp_all
  ultimately have "load_yaml (Inr y) cd = Inl TypeError" by (simp add: load_yaml_def)
  then show ?thesis by simp
qed

theorem load_yaml_missing_field_witness:
  "[doc_no_lessons] \<noteq> [] \<and>
   ''lessons'' \<notin> py_lower ` fst ` set ([doc_no_lessons] ! 0) \<and>
   load_yaml (Inr [doc_no_lessons]) (YStr ''demo'') = Inl TypeError"
proof -
  have k: "''lessons'' \<notin> py_lower ` fst ` set ([doc_no_lessons] ! 0)"
    by (simp add: doc_no_lessons_def py_lower_keys)
  have "load_yaml (Inr [doc_no_lessons]) (YStr ''demo'') = Inl TypeError"
    using load_yaml_missing_field [of "[doc_no_lessons]" "''lessons''" "YStr ''demo''"] k
    by simp
  with k show ?thesis by simp
qed

section \<open>Properties of running a lesson and of the loop\<close>

lemma py_lower_lessons: "py_lower ''Intro'' = ''intro''" "py_lower ''Basics'' = ''basics''"
  by code_simp+

lemma resolve_demo:
  "resolve [''Intro'', ''Basics'', ''Advanced''] ''1'' = Inr ''Intro''"
  "resolve [''Intro'', ''Basics'', ''Advanced''] ''2'' = Inr ''Basics''"
  "resolve [''Intro'', ''Basics'', ''Advanced''] ''9'' = Inl NoSuchLessonException"
  by code_simp+


text \<open>
  C1. The claim: after any lesson attempt on a packaged course, successful or not, the
  temporary directory no longer exists. The code removes it only in the handler
  \<open>except Exception\<close>. After an attempt that succeeds the directory is still there, and
  so it is when \<open>extractall\<close> raises, which happens before the \<open>try\<close>.
\<close>

theorem execute_lesson_success_keeps_tempdir:
  "execute_lesson ext_ok demo ''1'' \<lparr>dirs = {}, stdin = [], out = []\<rparr> =
     (None, \<lparr>dirs = {''/tmp/tmp0''}, stdin = [], out = [[], ''Lesson Intro complete!'']\<rparr>) \<and>
   execute_lesson (ext_ok\<lparr>extractall := (\<lambda>archive path. Some OSError)\<rparr>) demo ''1''
       \<lparr>dirs = {}, stdin = [], out = []\<rparr> =
     (Some OSError, \<lparr>dirs = {''/tmp/tmp0''}, stdin = [], out = []\<rparr>)"
  by (simp add: execute_lesson_def demo_def ext_ok_def resolve_demo lesson_body_def
      lessonpath_def path_join_def py_lower_lessons)




lemma execute_step:
  assumes "stdin s = line # rest"
    and "execute_lesson E self (strip line) (s\<lparr>stdin := rest, out := out s @ menu self\<rparr>) = (r, s')"
  shows "(r = None \<longrightarrow> execute E self s = execute E self s') \<and>
         (r = Some NoSuchLessonException \<longrightarrow>
            execute E self s = execute E self (s'\<lparr>out := out s' @ [''No lesson: '' @ strip line]\<rparr>)) \<and>
         (r = Some EOFError \<longrightarrow> execute E self s = (None, s'\<lparr>out := out s' @ [[], ''Bye!'']\<rparr>)) \<and>
         (\<forall>e. r = Some e \<and> e \<noteq> NoSuchLessonException \<and> e \<noteq> EOFError \<longrightarrow>
            execute E self s = (Some e, s'))"
  using assms by (auto simp: execute.simps [of E self s])

lemma execute_unresolved_step:
  assumes "stdin s = line # rest"
    and "resolve (lessonnames self) (strip line) = Inl NoSuchLessonException"
  shows "execute E self s =
         execute E self (s\<lparr>stdin := rest, out := out s @ menu self @ [''No lesson: '' @ strip line]\<rparr>)"
proof -
  have "execute_lesson E self (strip line) (s\<lparr>stdin := rest, out := out s @ menu self\<rparr>)
      = (Some NoSuchLessonException, s\<lparr>stdin := rest, out := out s @ menu self\<rparr>)"
    using assms(2) by (simp add: execute_lesson_def)
  then show ?thesis using assms(1) by (simp add: execute.simps [of E self s])
qed

lemma execute_all_unresolved:
  "\<forall>l \<in> set (stdin s). resolve (lessonnames self) (strip l) = Inl NoSuchLessonException \<Longrightarrow>
   execute E self s =
     (None, s\<lparr>stdin := [],
              out := out s @ concat (map (\<lambda>l. menu self @ [''No lesson: '' @ strip l]) (stdin s))
                     @ menu self @ [[], ''Bye!'']\<rparr>)"
proof (induction "stdin s" arbitrary: s)
  case Nil
  then have e: "stdin s = []" by simp
  then have "s\<lparr>stdin := [], out := out s @ menu self @ [[], ''Bye!'']\<rparr>
      = s\<lparr>out := out s @ menu self @ [[], ''Bye!'']\<rparr>" by (cases s) simp
  then show ?case using e by (simp add: execute.simps [of E self s])
next
  case (Cons line rest)
  let ?s1 = "s\<lparr>stdin := rest, out := out s @ menu self @ [''No lesson: '' @ strip line]\<rparr>"
  have st: "stdin s = line # rest" using Cons.hyps(2) by simp
  have r: "resolve (lessonnames self) (strip line) = Inl NoSuchLessonException"
    using Cons.prems st by simp
  have 1: "execute E self s = execute E self ?s1" using st r by (rule execute_unresolved_step)
  have "rest = stdin ?s1" by simp
  moreover have "\<forall>l \<in> set (stdin ?s1). resolve (lessonnames self) (strip l) = Inl NoSuchLessonException"
    using Cons.prems st by simp
  ultimately have "execute E self ?s1 =
     (None, ?s1\<lparr>stdin := [],
              out := out ?s1 @ concat (map (\<lambda>l. menu self @ [''No lesson: '' @ strip l]) (stdin ?s1))
                     @ menu self @ [[], ''Bye!'']\<rparr>)"
    by (rule Cons.hyps(1))
  then show ?case using 1 st by simp
qed

lemma execute_never_raises:
  "fst (execute E self s) \<noteq> Some NoSuchLessonException \<and> fst (execute E self s) \<noteq> Some EOFError"
proof (induction E self s rule: execute.induct)
  case (1 E self s)
  show ?case
  proof (cases "stdin s")
    case Nil
    then show ?thesis by (simp add: execute.simps [of E self s])
  next
    case (Cons line rest)
    obtain r s' where r: "execute_lesson E self (strip line)
        (s\<lparr>stdin := rest, out := out s @ menu self\<rparr>) = (r, s')"
      by (cases "execute_lesson E self (strip line) (s\<lparr>stdin := rest, out := out s @ menu self\<rparr>)")
    show ?thesis
    proof (cases r)
      case None
      with 1(1) [OF Cons r [symmetric]] Cons r show ?thesis
        by (simp add: execute.simps [of E self s])
    next
      case (Some e)
      with 1(2) [OF Cons r [symmetric]] Cons r show ?thesis
        by (simp add: execute.simps [of E self s])
    qed
  qed
qed

lemma execute_normal_exit:
  "fst (execute E self s) = None \<Longrightarrow> \<exists>pre. out (snd (execute E self s)) = pre @ [[], ''Bye!'']"
proof (induction E self s rule: execute.induct)
  case (1 E self s)
  show ?case
  proof (cases "stdin s")
    case Nil
    then show ?thesis by (simp add: execute.simps [of E self s])
  next
    case (Cons line rest)
    obtain r s' where r: "execute_lesson E self (strip line)
        (s\<lparr>stdin := rest, out := out s @ menu self\<rparr>) = (r, s')"
      by (cases "execute_lesson E self (strip line) (s\<lparr>stdin := rest, out := out s @ menu self\<rparr>)")
    show ?thesis
    proof (cases r)
      case None
      with 1(1) [OF Cons r [symmetric]] 1(3) Cons r show ?thesis
        by (simp add: execute.simps [of E self s])
    next
      case (Some e)
      with 1(2) [OF Cons r [symmetric]] 1(3) Cons r show ?thesis
        by (simp add: execute.simps [of E self s] split: if_splits)
    qed
  qed
qed

text \<open>
  C9, as amended. In the loop of \<open>execute\<close>: at the end of the input the loop prints an
  empty line and \<open>Bye!\<close> and returns without raising. When the selector read does not
  resolve, the loop prints \<open>No lesson: \<close> followed by the selector and goes on with the
  next round on the rest of the input. In every round, a lesson attempt that completes is
  followed by the next round; one that raises \<open>NoSuchLessonException\<close> is reported and
  followed by the next round; one that raises \<open>EOFError\<close> ends the loop normally with
  the farewell; and one that raises anything else ends the loop with that exception. On
  an input of selectors none of which resolves, the loop reports each of them and ends
  with the farewell at the end of the input: it never terminates on a resolver failure.
  Neither \<open>NoSuchLessonException\<close> nor \<open>EOFError\<close> ever leaves the loop, and whenever
  the loop returns normally the farewell is the last thing printed.
\<close>

theorem execute_loop:
  "(stdin s = [] \<longrightarrow> execute E self s = (None, s\<lparr>out := out s @ menu self @ [[], ''Bye!'']\<rparr>)) \<and>
   (stdin s = line # rest \<and> resolve (lessonnames self) (strip line) = Inl NoSuchLessonException \<longrightarrow>
      execute E self s =
        execute E self (s\<lparr>stdin := rest, out := out s @ menu self @ [''No lesson: '' @ strip line]\<rparr>)) \<and>
   (stdin s = line # rest \<and>
    execute_lesson E self (strip line) (s\<lparr>stdin := rest, out := out s @ menu self\<rparr>) = (r, s') \<longrightarrow>
      (r = None \<longrightarrow> execute E self s = execute E self s') \<and>
      (r = Some NoSuchLessonException \<longrightarrow>
         execute E self s = execute E self (s'\<lparr>out := out s' @ [''No lesson: '' @ strip line]\<rparr>)) \<and>
      (r = Some EOFError \<longrightarrow> execute E self s = (None, s'\<lparr>out := out s' @ [[], ''Bye!'']\<rparr>)) \<and>
      (\<forall>e. r = Some e \<and> e \<noteq> NoSuchLessonException \<and> e \<noteq> EOFError \<longrightarrow>
         execute E self s = (Some e, s'))) \<and>
   ((\<forall>l \<in> set (stdin s). resolve (lessonnames self) (strip l) = Inl NoSuchLessonException) \<longrightarrow>
      execute E self s =
        (None, s\<lparr>stdin := [],
                 out := out s @ concat (map (\<lambda>l. menu self @ [''No lesson: '' @ strip l]) (stdin s))
                        @ menu self @ [[], ''Bye!'']\<rparr>)) \<and>
   fst (execute E self s) \<noteq> Some NoSuchLessonException \<and>
   fst (execute E self s) \<noteq> Some EOFError \<and>
   (fst (execute E self s) = None \<longrightarrow> (\<exists>pre. out (snd (execute E self s)) = pre @ [[], ''Bye!'']))"
proof (intro conjI)
  show "stdin s = [] \<longrightarrow> execute E self s = (None, s\<lparr>out := out s @ menu self @ [[], ''Bye!'']\<rparr>)"
    by (simp add: execute.simps [of E self s])
next
  show "stdin s = line # rest \<and> resolve (lessonnames self) (strip line) = Inl NoSuchLessonException \<longrightarrow>
      execute E self s =
        execute E self (s\<lparr>stdin := rest, out := out s @ menu self @ [''No lesson: '' @ strip line]\<rparr>)"
    using execute_unresolved_step [of s line rest self E] by blast
next
  show "stdin s = line # rest \<and>
    execute_lesson E self (strip line) (s\<lparr>stdin := rest, out := out s @ menu self\<rparr>) = (r, s') \<longrightarrow>
      (r = None \<longrightarrow> execute E self s = execute E self s') \<and>
      (r = Some NoSuchLessonException \<longrightarrow>
         execute E self s = execute E self (s'\<lparr>out := out s' @ [''No lesson: '' @ strip line]\<rparr>)) \<and>
      (r = Some EOFError \<longrightarrow> execute E self s = (None, s'\<lparr>out := out s' @ [[], ''Bye!'']\<rparr>)) \<and>
      (\<forall>e. r = Some e \<and> e \<noteq> NoSuchLessonException \<and> e \<noteq> EOFError \<longrightarrow>
         execute E self s = (Some e, s'))"
    using execute_step [of s line rest E self r s'] by blast
next
  show "(\<forall>l \<in> set (stdin s). resolve (lessonnames self) (strip l) = Inl NoSuchLessonException) \<longrightarrow>
      execute E self s =
        (None, s\<lparr>stdin := [],
                 out := out s @ concat (map (\<lambda>l. menu self @ [''No lesson: '' @ strip l]) (stdin s))
                        @ menu self @ [[], ''Bye!'']\<rparr>)"
    using execute_all_unresolved [of s self E] by blast
next
  show "fst (execute E self s) \<noteq> Some NoSuchLessonException"
    by (rule execute_never_raises [THEN conjunct1])
next
  show "fst (execute E self s) \<noteq> Some EOFError"
    by (rule execute_never_raises [THEN conjunct2])
next
  show "fst (execute E self s) = None \<longrightarrow> (\<exists>pre. out (snd (execute E self s)) = pre @ [[], ''Bye!''])"
    using execute_normal_exit [of E self s] by blast
qed

theorem execute_loop_witness:
  "execute ext_ok demo \<lparr>dirs = {}, stdin = [''  9 '', ''1''], out = []\<rparr> =
     (None, \<lparr>dirs = {''/tmp/tmp0''}, stdin = [],
             out = menu demo @ [''No lesson: 9''] @
                   menu demo @ [[], ''Lesson Intro complete!''] @
                   menu demo @ [[], ''Bye!'']\<rparr>) \<and>
   menu demo = [''1: Intro'', ''2: Basics'', ''3: Advanced'']"
proof -
  let ?M = "menu demo"
  let ?s0 = "\<lparr>dirs = {}, stdin = [''  9 '', ''1''], out = []\<rparr>"
  let ?s1 = "\<lparr>dirs = {}, stdin = [''1''], out = ?M @ [''No lesson: 9'']\<rparr>"
  let ?s2 = "\<lparr>dirs = {''/tmp/tmp0''}, stdin = [],
              out = (?M @ [''No lesson: 9'']) @ ?M @ [[], ''Lesson Intro complete!'']\<rparr>"
  have st: "strip ''  9 '' = ''9''" "strip ''1'' = ''1''" by code_simp+
  have m: "?M = [''1: Intro'', ''2: Basics'', ''3: Advanced'']" by code_simp
  have r: "stdin ?s0 = ''  9 '' # [''1''] \<and>
      resolve (lessonnames demo) (strip ''  9 '') = Inl NoSuchLessonException"
    by (simp add: st demo_def resolve_demo)
  have 1: "execute ext_ok demo ?s0 = execute ext_ok demo ?s1"
    using execute_loop [where s = ?s0 and E = ext_ok and self = demo and line = "''  9 ''"
        and rest = "[''1'']"] r
    by (simp add: st)
  have a: "stdin ?s1 = ''1'' # [] \<and>
      execute_lesson ext_ok demo (strip ''1'') (?s1\<lparr>stdin := [], out := out ?s1 @ ?M\<rparr>) = (None, ?s2)"
    by (simp add: st execute_lesson_def demo_def ext_ok_def resolve_demo lesson_body_def
        lessonpath_def path_join_def py_lower_lessons)
  have 2: "execute ext_ok demo ?s1 = execute ext_ok demo ?s2"
    using execute_loop [where s = ?s1 and E = ext_ok and self = demo and line = "''1''"
        and rest = "[]" and r = None and s' = ?s2] a
    by blast
  have 3: "execute ext_ok demo ?s2 = (None, ?s2\<lparr>out := out ?s2 @ ?M @ [[], ''Bye!'']\<rparr>)"
    using execute_loop [where s = ?s2 and E = ext_ok and self = demo] by simp
  show ?thesis using 1 2 3 m by simp
qed

text \<open>
  C9, the claim as stated (end of input is the only terminating condition) fails. When the
  lesson file of the selected lesson does not open, the \<open>OSError\<close> leaves the loop with a
  line of input unread; and when the lesson raises \<open>EOFError\<close> while it runs, the loop
  prints the farewell and returns normally, again with a line of input unread.
\<close>

theorem execute_ends_before_end_of_input:
  "execute ext_ok demo \<lparr>dirs = {}, stdin = [''2'', ''1''], out = []\<rparr> =
     (Some OSError, \<lparr>dirs = {}, stdin = [''1''], out = [''1: Intro'', ''2: Basics'', ''3: Advanced'']\<rparr>) \<and>
   execute (ext_ok\<lparr>Lesson_execute := (\<lambda>lesson inp. (Some EOFError, 0))\<rparr>) demo
       \<lparr>dirs = {}, stdin = [''1'', ''2''], out = []\<rparr> =
     (None, \<lparr>dirs = {}, stdin = [''2''],
             out = [''1: Intro'', ''2: Basics'', ''3: Advanced'', [], ''Bye!'']\<rparr>)"
proof -
  have a: "execute_lesson ext_ok demo ''2''
      \<lparr>dirs = {}, stdin = [''1''], out = [''1: Intro'', ''2: Basics'', ''3: Advanced'']\<rparr>
    = (Some OSError, \<lparr>dirs = {}, stdin = [''1''], out = [''1: Intro'', ''2: Basics'', ''3: Advanced'']\<rparr>)"
    by (simp add: execute_lesson_def demo_def ext_ok_def resolve_demo lesson_body_def
      lessonpath_def path_join_def py_lower_lessons py_rmtree_def)
  have b: "execute_lesson (ext_ok\<lparr>Lesson_execute := (\<lambda>lesson inp. (Some EOFError, 0))\<rparr>) demo ''1''
      \<lparr>dirs = {}, stdin = [''2''], out = [''1: Intro'', ''2: Basics'', ''3: Advanced'']\<rparr>
    = (Some EOFError, \<lparr>dirs = {}, stdin = [''2''], out = [''1: Intro'', ''2: Basics'', ''3: Advanced'']\<rparr>)"
    by (simp add: execute_lesson_def demo_def ext_ok_def resolve_demo lesson_body_def
      lessonpath_def path_join_def py_lower_lessons py_rmtree_def)
  have st: "strip ''1'' = ''1''" "strip ''2'' = ''2''" by code_simp+
  have m: "menu demo = [''1: Intro'', ''2: Basics'', ''3: Advanced'']" by code_simp
  show ?thesis
    by (simp add: execute.simps [of _ _ "\<lparr>dirs = {}, stdin = [''2'', ''1''], out = []\<rparr>"]
        execute.simps [of _ _ "\<lparr>dirs = {}, stdin = [''1'', ''2''], out = []\<rparr>"]
        st m a b)
qed

end
